theory Spec2Isabelle
  imports Main "HOL-Library.Word"
begin

unbundle bit_operations_syntax

section \<open>lib/libc/include/any-macos-any/assert.h\<close>

text \<open>
  The header consists of preprocessor directives only.  They are modelled in two layers:
  \<^item> the inclusion of the header, a function on the table of macro definitions
    (lines 52 to 82);
  \<^item> the use of \<open>assert(e)\<close> at a place of the program, which runs the replacement list
    that the table holds at that moment, as a state transformer.
\<close>

subsection \<open>What the header reads from its environment\<close>

text \<open>
  \<open>__GNUC__\<close>, \<open>__DARWIN_UNIX03\<close> and \<open>__FILE_NAME__\<close> are reserved names that the
  compiler and \<^verbatim>\<open>sys/cdefs.h\<close> set; they are the same at every inclusion within one
  translation unit.  \<open>NDEBUG\<close> belongs to the program and may change between two
  inclusions, so it is an argument of its own.
\<close>

record compiler =
  GNUC :: bool             \<comment> \<open>\<open>__GNUC__\<close> is defined (tested by \<open>#ifndef\<close>, line 66)\<close>
  DARWIN_UNIX03 :: int     \<comment> \<open>value of \<open>__DARWIN_UNIX03\<close> in \<open>#if\<close> (line 73), 0 when undefined\<close>
  has_FILE_NAME :: bool    \<comment> \<open>\<open>__FILE_NAME__\<close> is defined (tested by \<open>#ifdef\<close>, line 60)\<close>

text \<open>The place where \<open>assert(e)\<close> is written: what the predefined names expand to there.\<close>

record site =
  FILE :: string           \<comment> \<open>\<open>__FILE__\<close>\<close>
  FILE_NAME :: string      \<comment> \<open>\<open>__FILE_NAME__\<close>, where the compiler has it\<close>
  LINE :: int              \<comment> \<open>\<open>__LINE__\<close>\<close>
  func :: string           \<comment> \<open>\<open>__func__\<close> of the enclosing function\<close>

text \<open>
  The macro argument \<open>e\<close>: its spelling, which is what \<open>#e\<close> yields, and its evaluation,
  which returns the scalar value (compared with 0 by \<open>?:\<close> and \<open>!\<close>) and the program state
  after the side effects of \<open>e\<close>.
\<close>

record 's arg =
  spelling :: string
  evaluate :: "'s \<Rightarrow> int \<times> 's"

subsection \<open>The macro table\<close>

datatype assert_body =
    Body_void0         \<comment> \<open>line 55: \<open>((void)0)\<close>\<close>
  | Body_cond          \<comment> \<open>lines 68-69: \<open>((void) ((e) ? ((void)0) : __assert (#e, __ASSERT_FILE_NAME, __LINE__)))\<close>\<close>
  | Body_expect_rtn    \<comment> \<open>lines 74-75: \<open>(__builtin_expect(!(e), 0) ? __assert_rtn(__func__, __ASSERT_FILE_NAME, __LINE__, #e) : (void)0)\<close>\<close>
  | Body_expect        \<comment> \<open>lines 77-78: \<open>(__builtin_expect(!(e), 0) ? __assert (#e, __ASSERT_FILE_NAME, __LINE__) : (void)0)\<close>\<close>

datatype file_body =
    Body_FILE_NAME     \<comment> \<open>line 61: \<open>__FILE_NAME__\<close>\<close>
  | Body_FILE          \<comment> \<open>line 63: \<open>__FILE__\<close>\<close>

record macros =
  m_assert :: "assert_body option"            \<comment> \<open>the definition of \<open>assert\<close>, if any\<close>
  m_ASSERT_FILE_NAME :: "file_body option"    \<comment> \<open>the definition of \<open>__ASSERT_FILE_NAME\<close>, if any\<close>

datatype pp_error =
    Macro_redefined string    \<comment> \<open>\<open>#define\<close> of a name that has another replacement list\<close>
  | Macro_undefined string    \<comment> \<open>use of a name that has no definition\<close>

text \<open>\<open>#undef assert\<close> (line 52).\<close>

definition undef_assert :: "macros \<Rightarrow> macros" where
  "undef_assert t = t\<lparr>m_assert := None\<rparr>"

text \<open>
  \<open>#define\<close>: a name that is defined may only be defined again with the same replacement
  list; any other redefinition is rejected by the preprocessor.
\<close>

definition define_assert :: "assert_body \<Rightarrow> macros \<Rightarrow> pp_error + macros" where
  "define_assert b t =
     (case m_assert t of
        None \<Rightarrow> Inr (t\<lparr>m_assert := Some b\<rparr>)
      | Some b' \<Rightarrow> if b' = b then Inr t else Inl (Macro_redefined ''assert''))"

definition define_ASSERT_FILE_NAME :: "file_body \<Rightarrow> macros \<Rightarrow> pp_error + macros" where
  "define_ASSERT_FILE_NAME b t =
     (case m_ASSERT_FILE_NAME t of
        None \<Rightarrow> Inr (t\<lparr>m_ASSERT_FILE_NAME := Some b\<rparr>)
      | Some b' \<Rightarrow> if b' = b then Inr t else Inl (Macro_redefined ''__ASSERT_FILE_NAME''))"

subsection \<open>One inclusion of the header (lines 52 to 82)\<close>

text \<open>
  There is no include guard: every inclusion runs the directives again.  The headers
  included at lines 42, 58 and 84 are not among the sources; they are taken not to define
  or undefine \<open>assert\<close> and \<open>__ASSERT_FILE_NAME\<close>.
\<close>

definition include_assert :: "compiler \<Rightarrow> bool \<Rightarrow> macros \<Rightarrow> pp_error + macros" where
  "include_assert c NDEBUG t0 =
     (let t = undef_assert t0 in
      if NDEBUG then define_assert Body_void0 t
      else
        case define_ASSERT_FILE_NAME (if has_FILE_NAME c then Body_FILE_NAME else Body_FILE) t of
          Inl err \<Rightarrow> Inl err
        | Inr t' \<Rightarrow>
            if \<not> GNUC c then define_assert Body_cond t'
            else if DARWIN_UNIX03 c \<noteq> 0 then define_assert Body_expect_rtn t'
            else define_assert Body_expect t')"

text \<open>
  A sequence of inclusions; the list gives, for each inclusion in order, whether
  \<open>NDEBUG\<close> is defined there.
\<close>

fun include_all :: "compiler \<Rightarrow> bool list \<Rightarrow> macros \<Rightarrow> pp_error + macros" where
  "include_all c [] t = Inr t"
| "include_all c (NDEBUG # rest) t =
     (case include_assert c NDEBUG t of
        Inl err \<Rightarrow> Inl err
      | Inr t' \<Rightarrow> include_all c rest t')"

text \<open>The start of a translation unit, where \<open>assert\<close> may already have a definition.\<close>

definition start_of_unit :: "assert_body option \<Rightarrow> macros" where
  "start_of_unit a = \<lparr>m_assert = a, m_ASSERT_FILE_NAME = None\<rparr>"

subsection \<open>The use of \<open>assert(e)\<close>\<close>

text \<open>
  Modelled from the spec: the failure routines \<open>__assert\<close> and \<open>__assert_rtn\<close> are declared
  in \<^verbatim>\<open>_assert.h\<close>, which is not among the sources.  The spec calls them
  process-terminating: a call ends the run, and the outcome records the call with its
  arguments in the order the macro passes them.
\<close>

datatype failure_call =
    Call_assert string string int              \<comment> \<open>\<open>__assert (#e, __ASSERT_FILE_NAME, __LINE__)\<close>\<close>
  | Call_assert_rtn string string int string   \<comment> \<open>\<open>__assert_rtn(__func__, __ASSERT_FILE_NAME, __LINE__, #e)\<close>\<close>

datatype 's outcome =
    Void 's                       \<comment> \<open>the expression has been evaluated; it has type void\<close>
  | Terminated failure_call 's    \<comment> \<open>the failure routine was called in this state\<close>

text \<open>The expression text, the file name and the line number that a call carries.\<close>

fun reported_expr :: "failure_call \<Rightarrow> string" where
  "reported_expr (Call_assert e file line) = e"
| "reported_expr (Call_assert_rtn fn file line e) = e"

fun reported_file :: "failure_call \<Rightarrow> string" where
  "reported_file (Call_assert e file line) = file"
| "reported_file (Call_assert_rtn fn file line e) = file"

fun reported_line :: "failure_call \<Rightarrow> int" where
  "reported_line (Call_assert e file line) = line"
| "reported_line (Call_assert_rtn fn file line e) = line"

text \<open>C's \<open>!\<close> on a scalar, and \<open>__builtin_expect\<close>, which returns its first argument.\<close>

definition c_not :: "int \<Rightarrow> int" where
  "c_not v = (if v = 0 then 1 else 0)"

definition builtin_expect :: "int \<Rightarrow> int \<Rightarrow> int" where
  "builtin_expect v expected = v"

text \<open>\<open>__ASSERT_FILE_NAME\<close> at a place of use (lines 60 to 64).\<close>

definition ASSERT_FILE_NAME :: "macros \<Rightarrow> site \<Rightarrow> pp_error + string" where
  "ASSERT_FILE_NAME t here =
     (case m_ASSERT_FILE_NAME t of
        None \<Rightarrow> Inl (Macro_undefined ''__ASSERT_FILE_NAME'')
      | Some Body_FILE_NAME \<Rightarrow> Inr (FILE_NAME here)
      | Some Body_FILE \<Rightarrow> Inr (FILE here))"

text \<open>The three replacement lists of the diagnostic mode, in the order of the header.\<close>

definition assert_cond :: "'s arg \<Rightarrow> string \<Rightarrow> site \<Rightarrow> 's \<Rightarrow> 's outcome" where
  "assert_cond e file here s =
     (case evaluate e s of
        (v, s') \<Rightarrow>
          if v \<noteq> 0 then Void s'
          else Terminated (Call_assert (spelling e) file (LINE here)) s')"

definition assert_expect_rtn :: "'s arg \<Rightarrow> string \<Rightarrow> site \<Rightarrow> 's \<Rightarrow> 's outcome" where
  "assert_expect_rtn e file here s =
     (case evaluate e s of
        (v, s') \<Rightarrow>
          if builtin_expect (c_not v) 0 \<noteq> 0
          then Terminated (Call_assert_rtn (func here) file (LINE here) (spelling e)) s'
          else Void s')"

definition assert_expect :: "'s arg \<Rightarrow> string \<Rightarrow> site \<Rightarrow> 's \<Rightarrow> 's outcome" where
  "assert_expect e file here s =
     (case evaluate e s of
        (v, s') \<Rightarrow>
          if builtin_expect (c_not v) 0 \<noteq> 0
          then Terminated (Call_assert (spelling e) file (LINE here)) s'
          else Void s')"

text \<open>
  \<open>assert(e)\<close> under a macro table.  A name without a definition does not compile; the
  body of line 55 mentions neither \<open>e\<close> nor \<open>__ASSERT_FILE_NAME\<close>.
\<close>

definition assert_macro :: "macros \<Rightarrow> 's arg \<Rightarrow> site \<Rightarrow> 's \<Rightarrow> pp_error + 's outcome" where
  "assert_macro t e here s =
     (case m_assert t of
        None \<Rightarrow> Inl (Macro_undefined ''assert'')
      | Some Body_void0 \<Rightarrow> Inr (Void s)
      | Some Body_cond \<Rightarrow>
          (case ASSERT_FILE_NAME t here of
             Inl err \<Rightarrow> Inl err
           | Inr file \<Rightarrow> Inr (assert_cond e file here s))
      | Some Body_expect_rtn \<Rightarrow>
          (case ASSERT_FILE_NAME t here of
             Inl err \<Rightarrow> Inl err
           | Inr file \<Rightarrow> Inr (assert_expect_rtn e file here s))
      | Some Body_expect \<Rightarrow>
          (case ASSERT_FILE_NAME t here of
             Inl err \<Rightarrow> Inl err
           | Inr file \<Rightarrow> Inr (assert_expect e file here s)))"

text \<open>
  An instrument for counting: the same argument over a state paired with a counter that
  each evaluation of \<open>e\<close> increments.
\<close>

definition counted :: "'s arg \<Rightarrow> ('s \<times> nat) arg" where
  "counted e =
     \<lparr>spelling = spelling e,
      evaluate = (\<lambda>(s, n). case evaluate e s of (v, s') \<Rightarrow> (v, (s', Suc n)))\<rparr>"

text \<open>
  The header never undefines \<open>__ASSERT_FILE_NAME\<close>, so a later inclusion meets the
  definition that an earlier one left.  The table agrees with the compiler when the name
  is undefined or has the replacement list that this compiler selects at lines 60 to 64.
\<close>

definition file_name_agrees :: "compiler \<Rightarrow> macros \<Rightarrow> bool" where
  "file_name_agrees c t =
     (m_ASSERT_FILE_NAME t = None
      \<or> m_ASSERT_FILE_NAME t = Some (if has_FILE_NAME c then Body_FILE_NAME else Body_FILE))"

section \<open>lib/libc/include/generic-netbsd/fts.h\<close>

subsection \<open>C types\<close>

type_synonym c_int = "32 word"        \<comment> \<open>\<open>int\<close>, read as signed by \<open>sint\<close>\<close>
type_synonym c_uint = "32 word"       \<comment> \<open>\<open>unsigned int\<close>\<close>
type_synonym c_ushort = "16 word"     \<comment> \<open>\<open>unsigned short\<close>\<close>
type_synonym int64_t = "64 word"
type_synonym ptr = "nat option"       \<comment> \<open>a pointer: \<open>NULL\<close> or an address\<close>

text \<open>\<open>dev_t\<close>, \<open>ino_t\<close> and \<open>nlink_t\<close> come from the system headers; the header fixes nothing about them.\<close>

typedecl dev_t
typedecl ino_t
typedecl nlink_t

subsection \<open>The traversal handle (lines 59 to 84)\<close>

record FTS =
  fts_cur :: ptr              \<comment> \<open>current node\<close>
  fts_child :: ptr            \<comment> \<open>linked list of children\<close>
  fts_array :: ptr            \<comment> \<open>sort array\<close>
  fts_dev :: dev_t            \<comment> \<open>starting device #\<close>
  fts_path :: ptr             \<comment> \<open>path for this descent\<close>
  fts_rfd :: c_int            \<comment> \<open>fd for root\<close>
  fts_pathlen :: c_uint       \<comment> \<open>sizeof(path)\<close>
  fts_nitems :: c_uint        \<comment> \<open>elements in the sort array\<close>
  fts_compar :: ptr           \<comment> \<open>compare function\<close>
  fts_options :: c_int        \<comment> \<open>fts_open options, global flags\<close>

definition FTS_COMFOLLOW :: c_int where "FTS_COMFOLLOW = 0x001"    \<comment> \<open>follow command line symlinks\<close>
definition FTS_LOGICAL :: c_int where "FTS_LOGICAL = 0x002"        \<comment> \<open>logical walk\<close>
definition FTS_NOCHDIR :: c_int where "FTS_NOCHDIR = 0x004"        \<comment> \<open>don't change directories\<close>
definition FTS_NOSTAT :: c_int where "FTS_NOSTAT = 0x008"          \<comment> \<open>don't get stat info\<close>
definition FTS_PHYSICAL :: c_int where "FTS_PHYSICAL = 0x010"      \<comment> \<open>physical walk\<close>
definition FTS_SEEDOT :: c_int where "FTS_SEEDOT = 0x020"          \<comment> \<open>return dot and dot-dot\<close>
definition FTS_XDEV :: c_int where "FTS_XDEV = 0x040"              \<comment> \<open>don't cross devices\<close>
definition FTS_WHITEOUT :: c_int where "FTS_WHITEOUT = 0x080"      \<comment> \<open>return whiteout information\<close>
definition FTS_OPTIONMASK :: c_int where "FTS_OPTIONMASK = 0x0ff"  \<comment> \<open>valid user option mask\<close>

definition FTS_NAMEONLY :: c_int where "FTS_NAMEONLY = 0x100"      \<comment> \<open>(private) child names only\<close>
definition FTS_STOP :: c_int where "FTS_STOP = 0x200"              \<comment> \<open>(private) unrecoverable error\<close>

text \<open>The eight option macros of lines 71 to 78, in the order of the header.\<close>

definition fts_option_flags :: "c_int list" where
  "fts_option_flags =
     [FTS_COMFOLLOW, FTS_LOGICAL, FTS_NOCHDIR, FTS_NOSTAT,
      FTS_PHYSICAL, FTS_SEEDOT, FTS_XDEV, FTS_WHITEOUT]"

text \<open>An options word is built as C programs build it, with \<open>|\<close> from 0.\<close>

definition or_flags :: "c_int list \<Rightarrow> c_int" where
  "or_flags fs = foldr (OR) fs 0"

subsection \<open>One visited entry (lines 86 to 136)\<close>

record FTSENT =
  fts_cycle :: ptr            \<comment> \<open>cycle node\<close>
  fts_parent :: ptr           \<comment> \<open>parent directory\<close>
  fts_link :: ptr             \<comment> \<open>next file in directory\<close>
  fts_number :: int64_t       \<comment> \<open>local numeric value\<close>
  fts_pointer :: ptr          \<comment> \<open>local address value\<close>
  fts_accpath :: ptr          \<comment> \<open>access path\<close>
  fts_path :: ptr             \<comment> \<open>root path\<close>
  fts_errno :: c_int          \<comment> \<open>errno for this node\<close>
  fts_symfd :: c_int          \<comment> \<open>fd for symlink\<close>
  fts_pathlen :: c_uint       \<comment> \<open>strlen(fts_path)\<close>
  fts_namelen :: c_uint       \<comment> \<open>strlen(fts_name)\<close>
  fts_ino :: ino_t            \<comment> \<open>inode\<close>
  fts_dev :: dev_t            \<comment> \<open>device\<close>
  fts_nlink :: nlink_t        \<comment> \<open>link count\<close>
  fts_level :: c_int          \<comment> \<open>depth (-1 to N)\<close>
  fts_info :: c_ushort        \<comment> \<open>user flags for FTSENT structure\<close>
  fts_flags :: c_ushort       \<comment> \<open>private flags for FTSENT structure\<close>
  fts_instr :: c_ushort       \<comment> \<open>fts_set() instructions\<close>
  fts_statp :: ptr            \<comment> \<open>stat(2) information\<close>
  fts_name :: string          \<comment> \<open>file name\<close>

definition FTS_ROOTPARENTLEVEL :: c_int where "FTS_ROOTPARENTLEVEL = - 1"
definition FTS_ROOTLEVEL :: c_int where "FTS_ROOTLEVEL = 0"

definition FTS_D :: c_int where "FTS_D = 1"                \<comment> \<open>preorder directory\<close>
definition FTS_DC :: c_int where "FTS_DC = 2"              \<comment> \<open>directory that causes cycles\<close>
definition FTS_DEFAULT :: c_int where "FTS_DEFAULT = 3"    \<comment> \<open>none of the above\<close>
definition FTS_DNR :: c_int where "FTS_DNR = 4"            \<comment> \<open>unreadable directory\<close>
definition FTS_DOT :: c_int where "FTS_DOT = 5"            \<comment> \<open>dot or dot-dot\<close>
definition FTS_DP :: c_int where "FTS_DP = 6"              \<comment> \<open>postorder directory\<close>
definition FTS_ERR :: c_int where "FTS_ERR = 7"            \<comment> \<open>error; errno is set\<close>
definition FTS_F :: c_int where "FTS_F = 8"                \<comment> \<open>regular file\<close>
definition FTS_INIT :: c_int where "FTS_INIT = 9"          \<comment> \<open>initialized only\<close>
definition FTS_NS :: c_int where "FTS_NS = 10"             \<comment> \<open>stat(2) failed\<close>
definition FTS_NSOK :: c_int where "FTS_NSOK = 11"         \<comment> \<open>no stat(2) requested\<close>
definition FTS_SL :: c_int where "FTS_SL = 12"             \<comment> \<open>symbolic link\<close>
definition FTS_SLNONE :: c_int where "FTS_SLNONE = 13"     \<comment> \<open>symbolic link without target\<close>
definition FTS_W :: c_int where "FTS_W = 14"               \<comment> \<open>whiteout object\<close>

text \<open>The fourteen tag macros of lines 107 to 120, in the order of the header.\<close>

definition fts_info_tags :: "c_int list" where
  "fts_info_tags =
     [FTS_D, FTS_DC, FTS_DEFAULT, FTS_DNR, FTS_DOT, FTS_DP, FTS_ERR,
      FTS_F, FTS_INIT, FTS_NS, FTS_NSOK, FTS_SL, FTS_SLNONE, FTS_W]"

text \<open>Storing a tag in the \<open>unsigned short\<close> field \<open>fts_info\<close> converts the \<open>int\<close>.\<close>

definition store_info :: "c_int \<Rightarrow> FTSENT \<Rightarrow> FTSENT" where
  "store_info tag p = p\<lparr>fts_info := ucast tag\<rparr>"

section \<open>Properties of assert.h\<close>

lemma include_assert_NDEBUG:
  "include_assert c True t = Inr (t\<lparr>m_assert := Some Body_void0\<rparr>)"
  by (simp add: include_assert_def undef_assert_def define_assert_def)

text \<open>
  Claim C2.  With \<open>NDEBUG\<close> defined at the inclusion, the header defines \<open>assert(e)\<close> as
  \<open>((void)0)\<close>, whatever the table held before; a use of \<open>assert(e)\<close> then leaves the state
  as it was for every argument \<open>e\<close>, so \<open>e\<close> is not evaluated and has no effect, and the
  evaluation counter of an instrumented argument does not move.
\<close>

theorem assert_NDEBUG_is_noop:
  "include_assert c True t = Inr (t\<lparr>m_assert := Some Body_void0\<rparr>)
   \<and> assert_macro (t\<lparr>m_assert := Some Body_void0\<rparr>) e here s = Inr (Void s)
   \<and> assert_macro (t\<lparr>m_assert := Some Body_void0\<rparr>) (counted e) here (s, n) = Inr (Void (s, n))"
  by (simp add: include_assert_NDEBUG assert_macro_def)

lemma include_assert_diagnostic:
  assumes "include_assert c False t = Inr t'"
  shows "m_assert t' =
           Some (if \<not> GNUC c then Body_cond
                 else if DARWIN_UNIX03 c \<noteq> 0 then Body_expect_rtn else Body_expect)"
    and "m_ASSERT_FILE_NAME t' = Some (if has_FILE_NAME c then Body_FILE_NAME else Body_FILE)"
  using assms
  by (auto simp: include_assert_def undef_assert_def define_assert_def
      define_ASSERT_FILE_NAME_def Let_def split: option.splits if_splits sum.splits)

lemma ASSERT_FILE_NAME_diagnostic:
  assumes "include_assert c False t = Inr t'"
  shows "ASSERT_FILE_NAME t' here = Inr (if has_FILE_NAME c then FILE_NAME here else FILE here)"
  using include_assert_diagnostic(2) [OF assms]
  by (simp add: ASSERT_FILE_NAME_def)

text \<open>
  Claim C1.  After an inclusion without \<open>NDEBUG\<close>, a use of \<open>assert(e)\<close> whose argument
  evaluates to 0 calls the failure routine, in the state that the evaluation of \<open>e\<close> left,
  and the call carries the spelling of \<open>e\<close>, the file name (\<open>__FILE_NAME__\<close> where the
  compiler has it, \<open>__FILE__\<close> otherwise) and the line of the use.  This holds for each of
  the three replacement lists of lines 68 to 78.
\<close>

theorem assert_false_calls_failure_routine:
  assumes "include_assert c False t = Inr t'"
    and "fst (evaluate e s) = 0"
  shows "\<exists>call. assert_macro t' e here s = Inr (Terminated call (snd (evaluate e s)))
           \<and> reported_expr call = spelling e
           \<and> reported_file call = (if has_FILE_NAME c then FILE_NAME here else FILE here)
           \<and> reported_line call = LINE here"
proof -
  obtain v s' where ev: "evaluate e s = (v, s')"
    by (cases "evaluate e s")
  with assms(2) have v: "v = 0"
    by simp
  show ?thesis
    using include_assert_diagnostic(1) [OF assms(1)]
      ASSERT_FILE_NAME_diagnostic [OF assms(1), of here]
    by (simp add: assert_macro_def assert_cond_def assert_expect_rtn_def assert_expect_def
        c_not_def builtin_expect_def ev v)
qed

theorem assert_false_calls_failure_routine_witness:
  "include_assert \<lparr>GNUC = True, DARWIN_UNIX03 = 1, has_FILE_NAME = True\<rparr> False (start_of_unit None)
     = Inr \<lparr>m_assert = Some Body_expect_rtn, m_ASSERT_FILE_NAME = Some Body_FILE_NAME\<rparr>
   \<and> fst (evaluate \<lparr>spelling = ''x > 0'', evaluate = (\<lambda>x::int. (if x > 0 then 1 else 0, x))\<rparr> 0) = 0
   \<and> assert_macro \<lparr>m_assert = Some Body_expect_rtn, m_ASSERT_FILE_NAME = Some Body_FILE_NAME\<rparr>
        \<lparr>spelling = ''x > 0'', evaluate = (\<lambda>x::int. (if x > 0 then 1 else 0, x))\<rparr>
        \<lparr>FILE = ''src/walk.c'', FILE_NAME = ''walk.c'', LINE = 42, func = ''walk''\<rparr> 0
     = Inr (Terminated (Call_assert_rtn ''walk'' ''walk.c'' 42 ''x > 0'') 0)"
proof -
  have inc: "include_assert \<lparr>GNUC = True, DARWIN_UNIX03 = 1, has_FILE_NAME = True\<rparr> False (start_of_unit None)
     = Inr \<lparr>m_assert = Some Body_expect_rtn, m_ASSERT_FILE_NAME = Some Body_FILE_NAME\<rparr>"
    by (simp add: include_assert_def undef_assert_def define_assert_def
        define_ASSERT_FILE_NAME_def start_of_unit_def)
  have ev: "fst (evaluate \<lparr>spelling = ''x > 0'', evaluate = (\<lambda>x::int. (if x > 0 then 1 else 0, x))\<rparr> 0) = 0"
    by simp
  from assert_false_calls_failure_routine [OF inc ev,
      of "\<lparr>FILE = ''src/walk.c'', FILE_NAME = ''walk.c'', LINE = 42, func = ''walk''\<rparr>"]
  obtain call where
    run: "assert_macro \<lparr>m_assert = Some Body_expect_rtn, m_ASSERT_FILE_NAME = Some Body_FILE_NAME\<rparr>
        \<lparr>spelling = ''x > 0'', evaluate = (\<lambda>x::int. (if x > 0 then 1 else 0, x))\<rparr>
        \<lparr>FILE = ''src/walk.c'', FILE_NAME = ''walk.c'', LINE = 42, func = ''walk''\<rparr> 0
       = Inr (Terminated call 0)"
    by auto
  from run have "call = Call_assert_rtn ''walk'' ''walk.c'' 42 ''x > 0''"
    by (simp add: assert_macro_def ASSERT_FILE_NAME_def assert_expect_rtn_def c_not_def
        builtin_expect_def)
  with run inc ev show ?thesis
    by simp
qed

text \<open>
  Claim C3.  After an inclusion without \<open>NDEBUG\<close>, a use of \<open>assert(e)\<close> whose argument
  evaluates to a nonzero value ends as a void expression in the state that one evaluation
  of \<open>e\<close> left: the failure routine is not called and the run goes on.  The evaluation
  counter of an instrumented argument goes up by exactly one.
\<close>

theorem assert_true_evaluates_once:
  assumes "include_assert c False t = Inr t'"
    and "fst (evaluate e s) \<noteq> 0"
  shows "assert_macro t' e here s = Inr (Void (snd (evaluate e s)))
       \<and> assert_macro t' (counted e) here (s, n) = Inr (Void (snd (evaluate e s), Suc n))"
proof -
  obtain v s' where ev: "evaluate e s = (v, s')"
    by (cases "evaluate e s")
  with assms(2) have v: "v \<noteq> 0"
    by simp
  show ?thesis
    using include_assert_diagnostic(1) [OF assms(1)]
      ASSERT_FILE_NAME_diagnostic [OF assms(1), of here]
    by (simp add: assert_macro_def assert_cond_def assert_expect_rtn_def assert_expect_def
        c_not_def builtin_expect_def counted_def ev v)
qed

theorem assert_true_evaluates_once_witness:
  "include_assert \<lparr>GNUC = False, DARWIN_UNIX03 = 0, has_FILE_NAME = False\<rparr> False (start_of_unit None)
     = Inr \<lparr>m_assert = Some Body_cond, m_ASSERT_FILE_NAME = Some Body_FILE\<rparr>
   \<and> fst (evaluate \<lparr>spelling = ''n++ < 3'', evaluate = (\<lambda>x::int. (if x < 3 then 1 else 0, x + 1))\<rparr> 0) \<noteq> 0
   \<and> assert_macro \<lparr>m_assert = Some Body_cond, m_ASSERT_FILE_NAME = Some Body_FILE\<rparr>
        \<lparr>spelling = ''n++ < 3'', evaluate = (\<lambda>x::int. (if x < 3 then 1 else 0, x + 1))\<rparr>
        \<lparr>FILE = ''src/walk.c'', FILE_NAME = ''walk.c'', LINE = 7, func = ''walk''\<rparr> 0
     = Inr (Void 1)
   \<and> assert_macro \<lparr>m_assert = Some Body_cond, m_ASSERT_FILE_NAME = Some Body_FILE\<rparr>
        (counted \<lparr>spelling = ''n++ < 3'', evaluate = (\<lambda>x::int. (if x < 3 then 1 else 0, x + 1))\<rparr>)
        \<lparr>FILE = ''src/walk.c'', FILE_NAME = ''walk.c'', LINE = 7, func = ''walk''\<rparr> (0, 0)
     = Inr (Void (1, 1))"
proof -
  have inc: "include_assert \<lparr>GNUC = False, DARWIN_UNIX03 = 0, has_FILE_NAME = False\<rparr> False (start_of_unit None)
     = Inr \<lparr>m_assert = Some Body_cond, m_ASSERT_FILE_NAME = Some Body_FILE\<rparr>"
    by (simp add: include_assert_def undef_assert_def define_assert_def
        define_ASSERT_FILE_NAME_def start_of_unit_def)
  have ev: "fst (evaluate \<lparr>spelling = ''n++ < 3'', evaluate = (\<lambda>x::int. (if x < 3 then 1 else 0, x + 1))\<rparr> 0) \<noteq> 0"
    by simp
  from assert_true_evaluates_once [OF inc ev,
      of "\<lparr>FILE = ''src/walk.c'', FILE_NAME = ''walk.c'', LINE = 7, func = ''walk''\<rparr>" 0]
    inc ev
  show ?thesis
    by simp
qed

subsection \<open>Sequences of inclusions\<close>

lemma include_assert_succeeds:
  assumes "file_name_agrees c t"
  shows "\<exists>t'. include_assert c NDEBUG t = Inr t' \<and> file_name_agrees c t'"
  using assms
  by (cases NDEBUG)
    (auto simp: file_name_agrees_def include_assert_def undef_assert_def define_assert_def
      define_ASSERT_FILE_NAME_def Let_def)

lemma include_all_succeeds:
  assumes "file_name_agrees c t"
  shows "\<exists>t'. include_all c history t = Inr t' \<and> file_name_agrees c t'"
  using assms
proof (induction history arbitrary: t)
  case Nil
  then show ?case by simp
next
  case (Cons NDEBUG rest)
  from include_assert_succeeds [OF Cons.prems, of NDEBUG]
  obtain t1 where t1: "include_assert c NDEBUG t = Inr t1" "file_name_agrees c t1"
    by blast
  from Cons.IH [OF t1(2)] t1(1) show ?case
    by simp
qed

lemma include_all_snoc:
  "include_all c (history @ [NDEBUG]) t =
     (case include_all c history t of
        Inl err \<Rightarrow> Inl err
      | Inr t' \<Rightarrow> include_assert c NDEBUG t')"
  by (induction history arbitrary: t) (auto split: sum.splits)

lemma assert_macro_cong:
  assumes "m_assert t = m_assert u"
    and "m_assert t \<noteq> Some Body_void0 \<Longrightarrow> m_ASSERT_FILE_NAME t = m_ASSERT_FILE_NAME u"
  shows "assert_macro t e here s = assert_macro u e here s"
  using assms
  by (auto simp: assert_macro_def ASSERT_FILE_NAME_def split: option.splits assert_body.splits)

text \<open>
  Without line 52 a second inclusion under another \<open>NDEBUG\<close> would be a redefinition.
\<close>

lemma define_assert_needs_undef:
  "define_assert Body_void0 \<lparr>m_assert = Some Body_cond, m_ASSERT_FILE_NAME = f\<rparr>
     = Inl (Macro_redefined ''assert'')"
  by (simp add: define_assert_def)

text \<open>
  Claim C10.  The header has no include guard and starts with \<open>#undef assert\<close>: from the
  start of a translation unit, whatever definition \<open>assert\<close> has there, every sequence of
  inclusions, each with or without \<open>NDEBUG\<close>, is accepted by the preprocessor.  Afterwards
  the definition of \<open>assert\<close> is the one that a single inclusion with the last \<open>NDEBUG\<close>
  setting gives from an empty table, and every use of \<open>assert(e)\<close> behaves the same under
  both tables: nothing of the earlier inclusions remains.
\<close>

theorem assert_follows_last_inclusion:
  "\<exists>t u. include_all c (history @ [NDEBUG]) (start_of_unit a) = Inr t
         \<and> include_assert c NDEBUG (start_of_unit None) = Inr u
         \<and> m_assert t = m_assert u
         \<and> m_assert t =
             Some (if NDEBUG then Body_void0 else if \<not> GNUC c then Body_cond
                   else if DARWIN_UNIX03 c \<noteq> 0 then Body_expect_rtn else Body_expect)
         \<and> assert_macro t e here s = assert_macro u e here s"
proof -
  have start: "file_name_agrees c (start_of_unit b)" for b
    by (simp add: file_name_agrees_def start_of_unit_def)
  from include_all_succeeds [OF start, of "history @ [NDEBUG]" a]
  obtain t where t: "include_all c (history @ [NDEBUG]) (start_of_unit a) = Inr t"
    by blast
  from include_all_succeeds [OF start, of history a]
  obtain t0 where t0: "include_all c history (start_of_unit a) = Inr t0"
    by blast
  from t t0 have last: "include_assert c NDEBUG t0 = Inr t"
    by (simp add: include_all_snoc)
  from include_assert_succeeds [OF start, of NDEBUG None]
  obtain u where u: "include_assert c NDEBUG (start_of_unit None) = Inr u"
    by blast
  have body: "m_assert t = Some (if NDEBUG then Body_void0 else if \<not> GNUC c then Body_cond
                   else if DARWIN_UNIX03 c \<noteq> 0 then Body_expect_rtn else Body_expect)"
  proof (cases NDEBUG)
    case True
    with last show ?thesis by (auto simp: include_assert_NDEBUG)
  next
    case False
    with last include_assert_diagnostic(1) [of c t0 t] show ?thesis by simp
  qed
  have body': "m_assert u = Some (if NDEBUG then Body_void0 else if \<not> GNUC c then Body_cond
                   else if DARWIN_UNIX03 c \<noteq> 0 then Body_expect_rtn else Body_expect)"
  proof (cases NDEBUG)
    case True
    with u show ?thesis by (auto simp: include_assert_NDEBUG)
  next
    case False
    with u include_assert_diagnostic(1) [of c "start_of_unit None" u] show ?thesis by simp
  qed
  have fname: "m_ASSERT_FILE_NAME t = m_ASSERT_FILE_NAME u" if "\<not> NDEBUG"
    using that last u include_assert_diagnostic(2) [of c t0 t]
      include_assert_diagnostic(2) [of c "start_of_unit None" u]
    by simp
  have "assert_macro t e here s = assert_macro u e here s"
  proof (rule assert_macro_cong)
    show "m_assert t = m_assert u" using body body' by simp
    show "m_ASSERT_FILE_NAME t = m_ASSERT_FILE_NAME u" if "m_assert t \<noteq> Some Body_void0"
      using that body fname by (cases NDEBUG) simp_all
  qed
  with t u body body' show ?thesis
    by simp
qed

section \<open>Properties of fts.h\<close>

lemmas option_defs = FTS_COMFOLLOW_def FTS_LOGICAL_def FTS_NOCHDIR_def FTS_NOSTAT_def
  FTS_PHYSICAL_def FTS_SEEDOT_def FTS_XDEV_def FTS_WHITEOUT_def

lemmas tag_defs = FTS_D_def FTS_DC_def FTS_DEFAULT_def FTS_DNR_def FTS_DOT_def FTS_DP_def
  FTS_ERR_def FTS_F_def FTS_INIT_def FTS_NS_def FTS_NSOK_def FTS_SL_def FTS_SLNONE_def FTS_W_def

subsection \<open>The option bits\<close>

lemma fts_option_flags_bits:
  "fts_option_flags = map (\<lambda>k. push_bit k 1) [0, 1, 2, 3, 4, 5, 6, 7]"
  by (simp add: fts_option_flags_def option_defs)

lemma option_flag_and:
  assumes "f \<in> set fts_option_flags" and "g \<in> set fts_option_flags"
  shows "g AND f = (if g = f then f else 0)"
  using assms by (auto simp: fts_option_flags_def option_defs)

lemma option_flag_nonzero:
  assumes "f \<in> set fts_option_flags"
  shows "f \<noteq> 0"
  using assms by (auto simp: fts_option_flags_def option_defs)

lemma or_flags_and:
  assumes "f \<in> set fts_option_flags" and "set fs \<subseteq> set fts_option_flags"
  shows "or_flags fs AND f = (if f \<in> set fs then f else 0)"
  using assms(2)
proof (induction fs)
  case Nil
  then show ?case by (simp add: or_flags_def)
next
  case (Cons g fs)
  then have g: "g \<in> set fts_option_flags" and fs: "set fs \<subseteq> set fts_option_flags"
    by simp_all
  have "or_flags (g # fs) AND f = (g AND f) OR (or_flags fs AND f)"
    by (simp add: or_flags_def bit.conj_disj_distrib2)
  also have "\<dots> = (if g = f then f else 0) OR (if f \<in> set fs then f else 0)"
    using option_flag_and [OF assms(1) g] Cons.IH [OF fs] by simp
  also have "\<dots> = (if f \<in> set (g # fs) then f else 0)"
    by auto
  finally show ?case .
qed

text \<open>
  Claim C7.  Each of the eight option macros of lines 71 to 78 is one bit of the \<open>int\<close>
  options word, two different ones share no bit, they are pairwise different, and in the
  bitwise OR of any selection of them a flag is set exactly when it was selected: no flag
  is lost and none appears.
\<close>

theorem fts_options_disjoint_bits:
  assumes "f \<in> set fts_option_flags"
    and "g \<in> set fts_option_flags"
    and "set fs \<subseteq> set fts_option_flags"
  shows "(\<exists>k<32. f = push_bit k 1)
       \<and> (f \<noteq> g \<longrightarrow> f AND g = 0)
       \<and> (or_flags fs AND f = f) = (f \<in> set fs)
       \<and> distinct fts_option_flags"
proof -
  have "\<exists>k<32. f = push_bit k 1"
  proof -
    from assms(1) have "f \<in> (\<lambda>k. push_bit k 1) ` set [0, 1, 2, 3, 4, 5, 6, 7 :: nat]"
      by (simp only: fts_option_flags_bits set_map)
    then obtain k where k: "k \<in> set [0, 1, 2, 3, 4, 5, 6, 7 :: nat]" and f: "f = push_bit k 1"
      by blast
    from k have "k < 32"
      by auto
    with f show ?thesis
      by blast
  qed
  moreover have "f \<noteq> g \<longrightarrow> f AND g = 0"
    using option_flag_and [OF assms(2) assms(1)] by simp
  moreover have "(or_flags fs AND f = f) = (f \<in> set fs)"
    using or_flags_and [OF assms(1) assms(3)] option_flag_nonzero [OF assms(1)] by auto
  moreover have "distinct fts_option_flags"
    by (simp add: fts_option_flags_def option_defs)
  ultimately show ?thesis by blast
qed

theorem fts_options_disjoint_bits_witness:
  "FTS_XDEV \<in> set fts_option_flags \<and> FTS_LOGICAL \<in> set fts_option_flags
   \<and> set [FTS_COMFOLLOW, FTS_XDEV] \<subseteq> set fts_option_flags
   \<and> FTS_XDEV \<noteq> FTS_LOGICAL
   \<and> FTS_XDEV AND FTS_LOGICAL = 0
   \<and> or_flags [FTS_COMFOLLOW, FTS_XDEV] = 0x41
   \<and> or_flags [FTS_COMFOLLOW, FTS_XDEV] AND FTS_XDEV = FTS_XDEV
   \<and> or_flags [FTS_COMFOLLOW, FTS_XDEV] AND FTS_LOGICAL \<noteq> FTS_LOGICAL"
proof -
  have a: "FTS_XDEV \<in> set fts_option_flags" "FTS_LOGICAL \<in> set fts_option_flags"
    and b: "set [FTS_COMFOLLOW, FTS_XDEV] \<subseteq> set fts_option_flags"
    by (simp_all add: fts_option_flags_def)
  have ne: "FTS_XDEV \<noteq> FTS_LOGICAL" "FTS_LOGICAL \<noteq> FTS_COMFOLLOW"
    by (simp_all add: option_defs)
  have v: "or_flags [FTS_COMFOLLOW, FTS_XDEV] = 0x41"
    by (simp add: option_defs or_flags_def)
  from fts_options_disjoint_bits [OF a(1) a(2) b] fts_options_disjoint_bits [OF a(2) a(1) b] ne
  have "FTS_XDEV AND FTS_LOGICAL = 0"
    and "or_flags [FTS_COMFOLLOW, FTS_XDEV] AND FTS_XDEV = FTS_XDEV"
    and "or_flags [FTS_COMFOLLOW, FTS_XDEV] AND FTS_LOGICAL \<noteq> FTS_LOGICAL"
    by simp_all
  with a b v ne show ?thesis by blast
qed

subsection \<open>The option mask and the private flags\<close>

lemma outside_mask_unset:
  assumes valid: "w AND NOT FTS_OPTIONMASK = 0"
    and p: "NOT FTS_OPTIONMASK AND p = p"
  shows "w AND p = 0"
proof -
  have "w AND p = w AND (NOT FTS_OPTIONMASK AND p)"
    by (simp only: p)
  also have "\<dots> = (w AND NOT FTS_OPTIONMASK) AND p"
    by (simp only: and.assoc)
  also have "\<dots> = 0"
    by (simp only: valid and_zero_eq zero_and_eq)
  finally show ?thesis .
qed

lemma private_flags_outside:
  "NOT FTS_OPTIONMASK AND FTS_NAMEONLY = FTS_NAMEONLY"
  "NOT FTS_OPTIONMASK AND FTS_STOP = FTS_STOP"
  by (simp_all add: FTS_OPTIONMASK_def FTS_NAMEONLY_def FTS_STOP_def)

text \<open>
  Claim C8.  \<open>FTS_OPTIONMASK\<close> is \<open>0x0ff\<close>, which is the bitwise OR of the eight option
  macros \<open>FTS_COMFOLLOW\<close> to \<open>FTS_WHITEOUT\<close>; the private flags \<open>FTS_NAMEONLY\<close> (\<open>0x100\<close>)
  and \<open>FTS_STOP\<close> (\<open>0x200\<close>) have no bit in the mask; so an options word with no bit
  outside the mask has neither private flag set.
\<close>

theorem fts_optionmask_covers_public_flags:
  "FTS_OPTIONMASK = 0x0ff
   \<and> FTS_OPTIONMASK = or_flags fts_option_flags
   \<and> FTS_OPTIONMASK = FTS_COMFOLLOW OR FTS_LOGICAL OR FTS_NOCHDIR OR FTS_NOSTAT
                       OR FTS_PHYSICAL OR FTS_SEEDOT OR FTS_XDEV OR FTS_WHITEOUT
   \<and> FTS_NAMEONLY = 0x100 \<and> FTS_STOP = 0x200
   \<and> FTS_NAMEONLY AND FTS_OPTIONMASK = 0
   \<and> FTS_STOP AND FTS_OPTIONMASK = 0
   \<and> (w AND NOT FTS_OPTIONMASK = 0 \<longrightarrow> w AND FTS_NAMEONLY = 0 \<and> w AND FTS_STOP = 0)"
proof -
  have vals: "FTS_OPTIONMASK = 0x0ff" "FTS_NAMEONLY = 0x100" "FTS_STOP = 0x200"
    by (simp_all add: FTS_OPTIONMASK_def FTS_NAMEONLY_def FTS_STOP_def)
  have cover: "FTS_OPTIONMASK = or_flags fts_option_flags"
    "FTS_OPTIONMASK = FTS_COMFOLLOW OR FTS_LOGICAL OR FTS_NOCHDIR OR FTS_NOSTAT
                       OR FTS_PHYSICAL OR FTS_SEEDOT OR FTS_XDEV OR FTS_WHITEOUT"
    by (simp_all add: FTS_OPTIONMASK_def or_flags_def fts_option_flags_def option_defs)
  have out: "FTS_NAMEONLY AND FTS_OPTIONMASK = 0" "FTS_STOP AND FTS_OPTIONMASK = 0"
    by (simp_all add: FTS_OPTIONMASK_def FTS_NAMEONLY_def FTS_STOP_def)
  have priv: "w AND NOT FTS_OPTIONMASK = 0 \<longrightarrow> w AND FTS_NAMEONLY = 0 \<and> w AND FTS_STOP = 0"
    using outside_mask_unset [OF _ private_flags_outside(1)]
      outside_mask_unset [OF _ private_flags_outside(2)]
    by blast
  from vals cover out priv show ?thesis
    by blast
qed

theorem fts_optionmask_covers_public_flags_witness:
  "(FTS_LOGICAL OR FTS_XDEV) AND NOT FTS_OPTIONMASK = 0
   \<and> (FTS_LOGICAL OR FTS_XDEV) AND FTS_NAMEONLY = 0
   \<and> (FTS_LOGICAL OR FTS_XDEV) AND FTS_STOP = 0"
proof -
  have valid: "(FTS_LOGICAL OR FTS_XDEV) AND NOT FTS_OPTIONMASK = 0"
    by (simp add: option_defs FTS_OPTIONMASK_def)
  with fts_optionmask_covers_public_flags [of "FTS_LOGICAL OR FTS_XDEV"]
  show ?thesis
    by blast
qed

text \<open>
  Claim C5.  Every entry has the field \<open>fts_errno\<close>, an \<open>int\<close> that holds whatever error
  number is stored in it (the header's comment: errno for this node).  \<open>FTS_STOP\<close> is
  \<open>0x200\<close> (the header's comment: private, unrecoverable error); it has no bit in
  \<open>FTS_OPTIONMASK\<close>, so setting it in the \<open>fts_options\<close> word of a handle can be read back
  and leaves the user's option bits as they were.
\<close>

theorem fts_errno_field_and_stop_flag:
  "fts_errno (p\<lparr>fts_errno := err\<rparr>) = err
   \<and> - (2 ^ 31) \<le> sint (fts_errno p) \<and> sint (fts_errno p) < 2 ^ 31
   \<and> FTS_STOP = 0x200
   \<and> FTS_STOP AND FTS_OPTIONMASK = 0
   \<and> fts_options (h\<lparr>fts_options := fts_options h OR FTS_STOP\<rparr>) AND FTS_STOP = FTS_STOP
   \<and> fts_options (h\<lparr>fts_options := fts_options h OR FTS_STOP\<rparr>) AND FTS_OPTIONMASK
       = fts_options h AND FTS_OPTIONMASK"
proof -
  have range: "- (2 ^ 31) \<le> sint (fts_errno p)" "sint (fts_errno p) < 2 ^ 31"
    using sint_ge [of "fts_errno p"] sint_lt [of "fts_errno p"] by simp_all
  have stop: "FTS_STOP = 0x200" and out: "FTS_STOP AND FTS_OPTIONMASK = 0"
    by (simp_all add: FTS_STOP_def FTS_OPTIONMASK_def)
  have set_stop: "(fts_options h OR FTS_STOP) AND FTS_STOP = FTS_STOP"
    by (simp add: bit.conj_disj_distrib2)
  have keep: "(fts_options h OR FTS_STOP) AND FTS_OPTIONMASK = fts_options h AND FTS_OPTIONMASK"
    by (simp add: bit.conj_disj_distrib2 out)
  from range stop out set_stop keep show ?thesis
    by simp
qed

subsection \<open>The levels and the tags of an entry\<close>

lemma fts_root_levels:
  "sint FTS_ROOTPARENTLEVEL = - 1" "sint FTS_ROOTLEVEL = 0"
  by (simp_all add: FTS_ROOTPARENTLEVEL_def FTS_ROOTLEVEL_def)

text \<open>
  Claim C9.  The fourteen tag macros \<open>FTS_D\<close> to \<open>FTS_W\<close> have the values 1 to 14 in the
  order of the header, so they are pairwise different, and they stay pairwise different
  when stored in the \<open>unsigned short\<close> field \<open>fts_info\<close>: the field tells the kind of an
  entry without ambiguity.
\<close>

theorem fts_info_tags_consecutive:
  "map unat fts_info_tags = [1..<15]
   \<and> length fts_info_tags = 14
   \<and> distinct fts_info_tags
   \<and> distinct (map (\<lambda>tag. fts_info (store_info tag p)) fts_info_tags)"
proof -
  have vals: "map unat fts_info_tags = [1, 2, 3, 4, 5, 6, 7, 8, 9, 10, 11, 12, 13, 14]"
    by (simp add: fts_info_tags_def tag_defs)
  have upt: "[1..<15] = [1, 2, 3, 4, 5, 6, 7, 8, 9, 10, 11, 12, 13, 14::nat]"
    by (simp add: upt_rec)
  have len: "length fts_info_tags = 14"
    by (simp add: fts_info_tags_def)
  have d1: "distinct fts_info_tags"
    by (simp add: fts_info_tags_def tag_defs)
  have d2: "distinct (map (\<lambda>tag. fts_info (store_info tag p)) fts_info_tags)"
    by (simp add: fts_info_tags_def tag_defs store_info_def)
  from vals upt len d1 d2 show ?thesis
    by (simp only: simp_thms)
qed

end
